(* ===== verification/Prelude.thy ===== *)
theory Prelude
  imports Main
begin

text \<open>
  Shared vocabulary of the development.  The two source files are a Tailwind CSS
  configuration (\<open>src/dashboard/tailwind.config.js\<close>) and a Vue entry point
  (\<open>src/dashboard/src/main.js\<close>).  Both are built from JavaScript object literals, so
  this theory fixes how an object literal is read: as an association list in source
  order (\<open>'v js_object\<close>), with property reads by \<open>obj_get\<close> (a later duplicate key
  wins, as in JavaScript), the merge used by Tailwind's \<open>theme.extend\<close>
  (\<open>merge_with\<close>), and the string splitting that Tailwind applies to the
  \<open>@apply\<close> parameter lists and to class candidates (\<open>split_by\<close>, \<open>join\<close>,
  \<open>words\<close>).  The lemmas here are the generic facts the component theories share:
  lookups in merged objects, key sets and key order of merges, and the split/join round
  trips.
\<close>

section \<open>Object literals as association lists\<close>

type_synonym 'v js_object = "(string \<times> 'v) list"

named_theorems config_defs "definitions of the configuration tables, unfolded to evaluate them"

definition unique_keys :: "('k \<times> 'v) list \<Rightarrow> bool" where
  "unique_keys t \<longleftrightarrow> distinct (map fst t)"

text \<open>A property read \<open>obj[k]\<close>: in an object literal with a repeated key the last
  occurrence wins, so the association list is searched from the end.\<close>

definition obj_get :: "('k \<times> 'v) list \<Rightarrow> 'k \<Rightarrow> 'v option" where
  "obj_get t k = map_of (rev t) k"

text \<open>
  Tailwind's \<open>theme.extend\<close> merge (\<open>mergeWith\<close> in its \<open>resolveConfig\<close>): the keys of
  the base object keep their place, a key that the extension also has takes the value
  \<open>f base_value extension_value\<close> (the extension value itself for a flat token, a
  recursive merge for a nested palette), and the keys only the extension has are
  appended in the extension's order.
\<close>

definition merge_with ::
  "('v \<Rightarrow> 'v \<Rightarrow> 'v) \<Rightarrow> ('k \<times> 'v) list \<Rightarrow> ('k \<times> 'v) list \<Rightarrow> ('k \<times> 'v) list" where
  "merge_with f base ext =
     map (\<lambda>(k, v). (k, case map_of ext k of None \<Rightarrow> v | Some v' \<Rightarrow> f v v')) base
     @ filter (\<lambda>(k, _). k \<notin> set (map fst base)) ext"

abbreviation override :: "'v \<Rightarrow> 'v \<Rightarrow> 'v" where
  "override v v' \<equiv> v'"

section \<open>Splitting strings\<close>

text \<open>\<open>s.split(sep)\<close> for a separator class \<open>p\<close>: every separator ends a piece, so
  \<open>n\<close> separators give \<open>n + 1\<close> pieces, empty ones included.\<close>

fun split_by :: "(char \<Rightarrow> bool) \<Rightarrow> string \<Rightarrow> string list" where
  "split_by p [] = [[]]"
| "split_by p (x # xs) =
     (let ws = split_by p xs in if p x then [] # ws else (x # hd ws) # tl ws)"

text \<open>\<open>ws.join(c)\<close>.\<close>

fun join :: "char \<Rightarrow> string list \<Rightarrow> string" where
  "join c [] = []"
| "join c [w] = w"
| "join c (w # v # ws) = w @ c # join c (v # ws)"

text \<open>Whitespace-separated words: \<open>s.split\<close> at runs of spaces, tabs and newlines, empty pieces dropped.\<close>

definition is_space :: "char \<Rightarrow> bool" where
  "is_space x \<longleftrightarrow> x = CHR '' '' \<or> x = CHR 0x0A \<or> x = CHR 0x09"

definition words :: "string \<Rightarrow> string list" where
  "words s = filter (\<lambda>w. w \<noteq> []) (split_by is_space s)"

section \<open>Chains of a relation\<close>

text \<open>\<open>chain R xs\<close>: every element of \<open>xs\<close> is related by \<open>R\<close> to the next; the
  paths along which a reference graph is followed.\<close>

fun chain :: "('a \<times> 'a) set \<Rightarrow> 'a list \<Rightarrow> bool" where
  "chain R [] = True"
| "chain R [x] = True"
| "chain R (x # y # zs) \<longleftrightarrow> (x, y) \<in> R \<and> chain R (y # zs)"

section \<open>Lemmas on object literals\<close>

lemma map_of_rev_unique:
  assumes "distinct (map fst t)"
  shows "map_of (rev t) = map_of t"
proof
  fix k
  have d: "distinct (map fst (rev t))" using assms by (simp add: rev_map [symmetric])
  show "map_of (rev t) k = map_of t k"
  proof (cases "map_of t k")
    case None
    then have "map_of (rev t) k = None" by (simp add: map_of_eq_None_iff)
    with None show ?thesis by simp
  next
    case (Some v)
    then have "(k, v) \<in> set (rev t)" by (simp add: map_of_SomeD)
    with d Some show ?thesis by (simp only: map_of_eq_Some_iff)
  qed
qed

lemma obj_get_unique [simp]: "unique_keys t \<Longrightarrow> obj_get t k = map_of t k"
  by (simp add: obj_get_def unique_keys_def map_of_rev_unique)

lemma map_of_map_values:
  "map_of (map (\<lambda>(k, v). (k, g k v)) t) k = map_option (g k) (map_of t k)"
  by (induction t) auto

lemma map_of_merge_with [simp]:
  "map_of (merge_with f base ext) k =
     (case map_of base k of
        None \<Rightarrow> map_of ext k
      | Some v \<Rightarrow> (case map_of ext k of None \<Rightarrow> Some v | Some v' \<Rightarrow> Some (f v v')))"
proof (cases "map_of base k")
  case None
  then have "k \<notin> set (map fst base)" by (simp add: map_of_eq_None_iff)
  then have f: "map_of (filter (\<lambda>(k, _). k \<notin> set (map fst base)) ext) k = map_of ext k"
    by (induction ext) (auto intro: rev_image_eqI)
  from None have "map_of (map (\<lambda>(k, v). (k, case map_of ext k of None \<Rightarrow> v
      | Some v' \<Rightarrow> f v v')) base) k = None"
    by (simp add: map_of_map_values)
  with f None show ?thesis
    by (simp add: merge_with_def map_add_def split: option.split)
next
  case (Some v)
  then show ?thesis
    by (simp add: merge_with_def map_add_def map_of_map_values split: option.split)
qed

lemma keys_merge_with:
  "map fst (merge_with f base ext) =
     map fst base @ filter (\<lambda>k. k \<notin> set (map fst base)) (map fst ext)"
  by (induction ext) (auto simp: merge_with_def comp_def case_prod_beta)

lemma set_keys_merge_with [simp]:
  "set (map fst (merge_with f base ext)) = set (map fst base) \<union> set (map fst ext)"
  by (auto simp: keys_merge_with)

lemma unique_keys_merge_with [intro]:
  "unique_keys base \<Longrightarrow> unique_keys ext \<Longrightarrow> unique_keys (merge_with f base ext)"
  by (auto simp: unique_keys_def keys_merge_with distinct_map_filter)

section \<open>Lemmas on splitting and joining\<close>

lemma split_by_not_Nil [simp]: "split_by p s \<noteq> []"
  by (induction s) (auto simp: Let_def)

lemma split_by_no_sep: "\<forall>x \<in> set w. \<not> p x \<Longrightarrow> split_by p w = [w]"
  by (induction w) (auto simp: Let_def)

lemma split_by_append_sep:
  "\<forall>x \<in> set w. \<not> p x \<Longrightarrow> p c \<Longrightarrow> split_by p (w @ c # s) = w # split_by p s"
  by (induction w) (auto simp: Let_def)

lemma join_split_by:
  "\<forall>x \<in> set s. p x \<longrightarrow> x = c \<Longrightarrow> join c (split_by p s) = s"
proof (induction s)
  case Nil
  then show ?case by simp
next
  case (Cons x s)
  then have IH: "join c (split_by p s) = s" by simp
  obtain w ws where ws: "split_by p s = w # ws"
    by (cases "split_by p s") auto
  show ?case
  proof (cases "p x")
    case True
    with Cons.prems have "x = c" by simp
    with True IH ws show ?thesis by (cases ws) simp_all
  next
    case False
    with IH ws show ?thesis by (cases ws) simp_all
  qed
qed

lemma split_by_join:
  "ws \<noteq> [] \<Longrightarrow> p c \<Longrightarrow> \<forall>w \<in> set ws. \<forall>x \<in> set w. \<not> p x \<Longrightarrow>
   split_by p (join c ws) = ws"
proof (induction c ws rule: join.induct)
  case (2 c w)
  then show ?case by (simp add: split_by_no_sep)
next
  case (3 c w v ws)
  then show ?case by (simp add: split_by_append_sep)
qed simp

lemma words_join:
  assumes "is_space c" and "\<forall>w \<in> set ws. w \<noteq> [] \<and> (\<forall>x \<in> set w. \<not> is_space x)"
  shows "words (join c ws) = ws"
proof (cases ws)
  case Nil
  then show ?thesis by (simp add: words_def)
next
  case (Cons w ws')
  with assms have "split_by is_space (join c ws) = ws"
    by (intro split_by_join) auto
  with assms show ?thesis by (simp add: words_def filter_id_conv)
qed

lemma take_drop_sep:
  "takeWhile (\<lambda>c. c \<noteq> d) u @ (if d \<in> set u then d # tl (dropWhile (\<lambda>c. c \<noteq> d) u) else []) = u"
proof (cases "d \<in> set u")
  case True
  then have "dropWhile (\<lambda>c. c \<noteq> d) u = d # tl (dropWhile (\<lambda>c. c \<noteq> d) u)"
    by (induction u) auto
  then have "takeWhile (\<lambda>c. c \<noteq> d) u @ d # tl (dropWhile (\<lambda>c. c \<noteq> d) u) = u"
    by (metis takeWhile_dropWhile_id)
  with True show ?thesis by simp
next
  case False
  then show ?thesis by (auto simp: takeWhile_eq_all_conv)
qed

lemma takeWhile_upto_sep: "d \<notin> set u \<Longrightarrow> takeWhile (\<lambda>c. c \<noteq> d) (u @ d # m) = u"
  by (induction u) auto

lemma dropWhile_upto_sep: "d \<notin> set u \<Longrightarrow> dropWhile (\<lambda>c. c \<noteq> d) (u @ d # m) = d # m"
  by (induction u) auto

lemma map_sum_eq_Inr_iff: "map_sum f g x = Inr y \<longleftrightarrow> (\<exists>z. x = Inr z \<and> y = g z)"
  by (cases x) auto

lemma map_sum_eq_Inl_iff: "map_sum f g x = Inl y \<longleftrightarrow> (\<exists>z. x = Inl z \<and> y = f z)"
  by (cases x) auto

section \<open>Lemmas on chains and acyclic relations\<close>

lemma chain_ConsD: "chain R (x # zs) \<Longrightarrow> chain R zs"
  by (cases zs) simp_all

lemma chain_append_right: "chain R (xs @ ys) \<Longrightarrow> chain R ys"
  by (induction xs) (auto dest: chain_ConsD)

lemma chain_append_left: "chain R (xs @ ys) \<Longrightarrow> chain R xs"
proof (induction xs)
  case Nil
  then show ?case by simp
next
  case (Cons x xs)
  then show ?case by (cases xs) auto
qed

lemma chain_trancl: "chain R (x # ys @ [y]) \<Longrightarrow> (x, y) \<in> R\<^sup>+"
proof (induction ys arbitrary: x)
  case Nil
  then show ?case by simp
next
  case (Cons z ys)
  then have "(x, z) \<in> R" and "(z, y) \<in> R\<^sup>+" by auto
  then show ?case by (rule trancl_into_trancl2)
qed

text \<open>A chain that visits an element twice closes a cycle.\<close>

lemma chain_repeat_not_acyclic:
  assumes "chain R xs" and "\<not> distinct xs"
  shows "\<not> acyclic R"
proof -
  obtain as y bs cs where xs: "xs = as @ [y] @ bs @ [y] @ cs"
    using not_distinct_decomp [OF assms(2)] by blast
  have "chain R ((y # bs @ [y]) @ cs)"
    using assms(1) chain_append_right [of R as] xs by simp
  then have "chain R (y # bs @ [y])"
    by (rule chain_append_left)
  then have "(y, y) \<in> R\<^sup>+" by (rule chain_trancl)
  then show ?thesis by (auto simp: acyclic_def)
qed

text \<open>In an acyclic relation a chain inside a finite set is no longer than the set:
  the pigeonhole argument behind every fuel bound of the development.\<close>

lemma chain_length_acyclic:
  assumes "acyclic R" and "chain R xs" and "set xs \<subseteq> set ys"
  shows "length xs \<le> length ys"
proof -
  from assms(1,2) have "distinct xs" using chain_repeat_not_acyclic by blast
  then have "length xs = card (set xs)" by (simp add: distinct_card)
  also have "\<dots> \<le> card (set ys)" using assms(3) by (simp add: card_mono)
  also have "\<dots> \<le> length ys" by (rule card_length)
  finally show ?thesis .
qed

lemma acyclic_no_two_step:
  assumes "R O R = {}" and "\<forall>x. (x, x) \<notin> R"
  shows "acyclic R"
proof -
  have "trans R" using assms(1) by (auto simp: trans_def)
  then have "R\<^sup>+ = R" by (rule trancl_id)
  with assms(2) show ?thesis by (simp add: acyclic_def)
qed

end
