(* ===== verification/Theme.thy ===== *)
theory Theme
  imports Prelude
begin

text \<open>
  The theme part of \<open>src/dashboard/tailwind.config.js\<close> (lines 3--117): the
  \<open>content\<close> globs and every token table of \<open>theme.extend\<close>, transcribed entry by
  entry in source order, the record that groups them, the merge of an extension into a
  base theme as Tailwind performs it, and the well-formedness of the tables: unique keys
  in every object, the two eleven-step colour palettes, hexadecimal colour literals,
  keyframes that run from \<open>0%\<close> to \<open>100%\<close> and animate the same properties at both
  ends, and animations that name their keyframes.
\<close>

section \<open>Token tables of \<open>theme.extend\<close>\<close>

text \<open>A colour token is a single CSS colour or a nested palette of shades.  JavaScript
  turns the numeric keys \<open>50\<close>, \<open>100\<close>, \<dots> of a palette into the strings
  \<open>''50''\<close>, \<open>''100''\<close>, \<dots>, which is how they are kept here.\<close>

datatype color_value = Color string | Palette "string js_object"

type_synonym css_props = "string js_object"
type_synonym keyframe = "css_props js_object"

definition content :: "string list" where
  "content = [''./index.html'', ''./src/**/*.{vue,js,ts,jsx,tsx}'']"

definition signal_palette :: "string js_object" where
  "signal_palette =
     [(''50'', ''#f8fafc''), (''100'', ''#f1f5f9''), (''200'', ''#e2e8f0''),
      (''300'', ''#cbd5e1''), (''400'', ''#94a3b8''), (''500'', ''#64748b''),
      (''600'', ''#475569''), (''700'', ''#334155''), (''800'', ''#1e293b''),
      (''900'', ''#0f172a''), (''950'', ''#020617'')]"

definition purple_palette :: "string js_object" where
  "purple_palette =
     [(''50'', ''#faf5ff''), (''100'', ''#f3e8ff''), (''200'', ''#e9d5ff''),
      (''300'', ''#d8b4fe''), (''400'', ''#c084fc''), (''500'', ''#a855f7''),
      (''600'', ''#9333ea''), (''700'', ''#7c3aed''), (''800'', ''#6b21a8''),
      (''900'', ''#581c87''), (''950'', ''#3b0764'')]"

definition colors :: "color_value js_object" where
  "colors =
     [(''signal'', Palette signal_palette),
      (''purple'', Palette purple_palette),
      (''bullish'', Color ''#10b981''),
      (''bearish'', Color ''#ef4444''),
      (''neutral'', Color ''#f59e0b'')]"

definition fontFamily :: "string list js_object" where
  "fontFamily =
     [(''sans'', [''Inter'', ''ui-sans-serif'', ''system-ui'']),
      (''mono'', [''JetBrains Mono'', ''ui-monospace'', ''monospace''])]"

definition fontSize :: "string js_object" where
  "fontSize =
     [(''xs'', ''0.75rem''), (''sm'', ''0.875rem''), (''base'', ''1rem''),
      (''lg'', ''1.125rem''), (''xl'', ''1.25rem''), (''2xl'', ''1.5rem''),
      (''3xl'', ''1.875rem''), (''4xl'', ''2.25rem''), (''5xl'', ''3rem''),
      (''6xl'', ''3.75rem'')]"

definition spacing :: "string js_object" where
  "spacing = [(''18'', ''4.5rem''), (''88'', ''22rem''), (''128'', ''32rem'')]"

definition animation :: "string js_object" where
  "animation =
     [(''pulse-slow'', ''pulse 3s ease-in-out infinite''),
      (''bounce-slow'', ''bounce 2s infinite''),
      (''fade-in'', ''fadeIn 0.5s ease-in-out''),
      (''slide-up'', ''slideUp 0.3s ease-out''),
      (''glow'', ''glow 2s ease-in-out infinite alternate'')]"

definition fadeIn :: keyframe where
  "fadeIn = [(''0%'', [(''opacity'', ''0'')]), (''100%'', [(''opacity'', ''1'')])]"

definition slideUp :: keyframe where
  "slideUp =
     [(''0%'', [(''opacity'', ''0''), (''transform'', ''translateY(20px)'')]),
      (''100%'', [(''opacity'', ''1''), (''transform'', ''translateY(0)'')])]"

definition glow :: keyframe where
  "glow =
     [(''0%'', [(''boxShadow'', ''0 0 5px rgba(168, 85, 247, 0.3)'')]),
      (''100%'', [(''boxShadow'',
         ''0 0 20px rgba(168, 85, 247, 0.8), 0 0 30px rgba(168, 85, 247, 0.4)'')])]"

definition keyframes :: "keyframe js_object" where
  "keyframes = [(''fadeIn'', fadeIn), (''slideUp'', slideUp), (''glow'', glow)]"

definition backdropBlur :: "string js_object" where
  "backdropBlur =
     [(''xs'', ''2px''), (''sm'', ''4px''), (''md'', ''8px''), (''lg'', ''16px''),
      (''xl'', ''24px''), (''2xl'', ''40px''), (''3xl'', ''64px'')]"

definition backgroundImage :: "string js_object" where
  "backgroundImage =
     [(''gradient-radial'', ''radial-gradient(var(--tw-gradient-stops))''),
      (''gradient-conic'',
        ''conic-gradient(from 180deg at 50% 50%, var(--tw-gradient-stops))''),
      (''signal-gradient'', ''linear-gradient(135deg, #667eea 0%, #764ba2 100%)''),
      (''bullish-gradient'', ''linear-gradient(135deg, #10b981 0%, #059669 100%)''),
      (''bearish-gradient'', ''linear-gradient(135deg, #ef4444 0%, #dc2626 100%)''),
      (''neutral-gradient'', ''linear-gradient(135deg, #f59e0b 0%, #d97706 100%)'')]"

definition boxShadow :: "string js_object" where
  "boxShadow =
     [(''glow'', ''0 0 20px rgba(168, 85, 247, 0.3)''),
      (''glow-lg'', ''0 0 40px rgba(168, 85, 247, 0.4)''),
      (''signal'', ''0 4px 14px 0 rgba(168, 85, 247, 0.2)''),
      (''signal-lg'', ''0 10px 25px -3px rgba(168, 85, 247, 0.3)'')]"

text \<open>The \<open>theme.extend\<close> object: one field per category, in source order.\<close>

record theme_extension =
  ext_colors :: "color_value js_object"
  ext_fontFamily :: "string list js_object"
  ext_fontSize :: "string js_object"
  ext_spacing :: "string js_object"
  ext_animation :: "string js_object"
  ext_keyframes :: "keyframe js_object"
  ext_backdropBlur :: "string js_object"
  ext_backgroundImage :: "string js_object"
  ext_boxShadow :: "string js_object"

definition theme_extend :: theme_extension where
  "theme_extend =
     \<lparr>ext_colors = colors, ext_fontFamily = fontFamily, ext_fontSize = fontSize,
      ext_spacing = spacing, ext_animation = animation, ext_keyframes = keyframes,
      ext_backdropBlur = backdropBlur, ext_backgroundImage = backgroundImage,
      ext_boxShadow = boxShadow\<rparr>"

section \<open>Well-formedness of the tables\<close>

definition palette_scale :: "string list" where
  "palette_scale =
     [''50'', ''100'', ''200'', ''300'', ''400'', ''500'', ''600'', ''700'', ''800'', ''900'',
      ''950'']"

definition is_hex_digit :: "char \<Rightarrow> bool" where
  "is_hex_digit c \<longleftrightarrow> c \<in> set ''0123456789abcdefABCDEF''"

text \<open>A six-digit CSS hex colour \<open>#rrggbb\<close>.\<close>

fun is_hex_color :: "string \<Rightarrow> bool" where
  "is_hex_color [] \<longleftrightarrow> False"
| "is_hex_color (h # ds) \<longleftrightarrow> h = CHR ''#'' \<and> length ds = 6 \<and> list_all is_hex_digit ds"

fun valid_color :: "color_value \<Rightarrow> bool" where
  "valid_color (Color c) \<longleftrightarrow> is_hex_color c"
| "valid_color (Palette p) \<longleftrightarrow> map fst p = palette_scale \<and> list_all (is_hex_color \<circ> snd) p"

definition is_digit :: "char \<Rightarrow> bool" where
  "is_digit c \<longleftrightarrow> c \<in> set ''0123456789''"

definition digit_value :: "char \<Rightarrow> nat" where
  "digit_value c = of_char c - of_char (CHR ''0'')"

definition parse_nat :: "string \<Rightarrow> nat option" where
  "parse_nat s =
     (if s \<noteq> [] \<and> list_all is_digit s
      then Some (foldl (\<lambda>n c. 10 * n + digit_value c) 0 s) else None)"

text \<open>A keyframe offset \<open>N%\<close>.\<close>

definition parse_percent :: "string \<Rightarrow> nat option" where
  "parse_percent s =
     (if s \<noteq> [] \<and> last s = CHR ''%'' then parse_nat (butlast s) else None)"

text \<open>A keyframe sequence is well formed when its offsets are percentages that rise
  strictly from \<open>0%\<close> to \<open>100%\<close>, no offset or property is given twice, and the
  first and the last step set the same properties (so the animation has a defined start
  and end value for everything it animates).\<close>

definition keyframe_ok :: "keyframe \<Rightarrow> bool" where
  "keyframe_ok kf \<longleftrightarrow>
     kf \<noteq> [] \<and> unique_keys kf \<and> list_all (unique_keys \<circ> snd) kf \<and>
     (case those (map (parse_percent \<circ> fst) kf) of
        None \<Rightarrow> False
      | Some ns \<Rightarrow> hd ns = 0 \<and> last ns = 100 \<and> sorted_wrt (<) ns) \<and>
     set (map fst (snd (hd kf))) = set (map fst (snd (last kf)))"

text \<open>The keyframe an animation shorthand names: its first word, as every value of
  \<open>animation\<close> is written \<open>name duration timing ...\<close>.\<close>

definition animation_keyframe :: "string \<Rightarrow> string option" where
  "animation_keyframe v = (case words v of [] \<Rightarrow> None | n # _ \<Rightarrow> Some n)"

definition theme_wf :: "theme_extension \<Rightarrow> bool" where
  "theme_wf e \<longleftrightarrow>
     unique_keys (ext_colors e) \<and> list_all (valid_color \<circ> snd) (ext_colors e) \<and>
     unique_keys (ext_fontFamily e) \<and> unique_keys (ext_fontSize e) \<and>
     unique_keys (ext_spacing e) \<and> unique_keys (ext_animation e) \<and>
     unique_keys (ext_keyframes e) \<and> list_all (keyframe_ok \<circ> snd) (ext_keyframes e) \<and>
     unique_keys (ext_backdropBlur e) \<and> unique_keys (ext_backgroundImage e) \<and>
     unique_keys (ext_boxShadow e)"

section \<open>Resolving colour tokens\<close>

text \<open>Tailwind flattens the colour object before it generates colour utilities
  (\<open>flattenColorPalette\<close>): a flat token keeps its name, a palette shade \<open>s\<close> of
  \<open>k\<close> becomes \<open>k-s\<close>, and a \<open>DEFAULT\<close> shade becomes \<open>k\<close> itself.\<close>

fun flatten_entry :: "string \<times> color_value \<Rightarrow> string js_object" where
  "flatten_entry (k, Color c) = [(k, c)]"
| "flatten_entry (k, Palette p) =
     map (\<lambda>(s, c). (if s = ''DEFAULT'' then k else k @ CHR ''-'' # s, c)) p"

definition flatten_colors :: "color_value js_object \<Rightarrow> string js_object" where
  "flatten_colors cs = concat (map flatten_entry cs)"

text \<open>Merging the colour extension into the base colours: palettes present on both
  sides are merged shade by shade, anything else is replaced by the extension.\<close>

fun merge_color :: "color_value \<Rightarrow> color_value \<Rightarrow> color_value" where
  "merge_color (Palette b) (Palette e) = Palette (merge_with override b e)"
| "merge_color _ e = e"

definition extend_colors :: "color_value js_object \<Rightarrow> color_value js_object \<Rightarrow> color_value js_object" where
  "extend_colors base ext = merge_with merge_color base ext"

text \<open>The value a merged colour object gives a shade \<open>s\<close> of the palette \<open>k\<close>:
  what a \<open>k-s\<close> colour utility resolves to.\<close>

definition shade :: "color_value js_object \<Rightarrow> string \<Rightarrow> string \<Rightarrow> string option" where
  "shade cs k s = (case map_of cs k of Some (Palette p) \<Rightarrow> map_of p s | _ \<Rightarrow> None)"

declare content_def [config_defs] signal_palette_def [config_defs]
  purple_palette_def [config_defs] colors_def [config_defs] fontFamily_def [config_defs]
  fontSize_def [config_defs] spacing_def [config_defs] animation_def [config_defs]
  keyframes_def [config_defs] fadeIn_def [config_defs] slideUp_def [config_defs]
  glow_def [config_defs] backdropBlur_def [config_defs]
  backgroundImage_def [config_defs] boxShadow_def [config_defs]
  theme_extend_def [config_defs] palette_scale_def [config_defs]

section \<open>Properties of the theme\<close>

lemmas theme_eval_defs = config_defs unique_keys_def is_hex_digit_def keyframe_ok_def
  parse_percent_def parse_nat_def is_digit_def digit_value_def animation_keyframe_def
  words_def is_space_def flatten_colors_def

text \<open>C1: every object of \<open>theme.extend\<close> has unique keys (so no token is
  silently dropped by a later duplicate), every colour token is a six-digit hex colour,
  both palettes are the eleven-step scale 50--950, and every keyframe sequence rises from
  \<open>0%\<close> to \<open>100%\<close> and sets the same properties at both ends.\<close>

theorem theme_extend_wf: "theme_wf theme_extend"
  by (simp add: theme_wf_def theme_eval_defs)

text \<open>C11: the animations name the keyframes \<open>pulse\<close>, \<open>bounce\<close>, \<open>fadeIn\<close>,
  \<open>slideUp\<close> and \<open>glow\<close>; exactly \<open>fade-in\<close>, \<open>slide-up\<close> and \<open>glow\<close> use a
  keyframe this configuration defines (the other two rely on Tailwind's built-in
  \<open>pulse\<close> and \<open>bounce\<close>), and every keyframe defined here is used by an
  animation.\<close>

theorem animation_keyframes_named:
  "map (animation_keyframe \<circ> snd) animation =
     map Some [''pulse'', ''bounce'', ''fadeIn'', ''slideUp'', ''glow''] \<and>
   map fst (filter (\<lambda>(a, v). animation_keyframe v \<in> Some ` set (map fst keyframes)) animation)
     = [''fade-in'', ''slide-up'', ''glow''] \<and>
   list_all (\<lambda>k. Some k \<in> set (map (animation_keyframe \<circ> snd) animation)) (map fst keyframes)"
  by (simp add: theme_eval_defs)

text \<open>Merging a palette of the extension into the base colours keeps it a palette and
  merges it shade by shade: the extension's shades win, the base's other shades stay.\<close>

lemma extend_colors_palette:
  assumes "map_of ext k = Some (Palette e)"
  shows "map_of (extend_colors base ext) k =
           Some (Palette (case map_of base k of
                            Some (Palette b) \<Rightarrow> merge_with override b e
                          | _ \<Rightarrow> e))"
  using assms
  by (auto simp: extend_colors_def split: option.split color_value.split)

lemma shade_extend_colors:
  assumes "map_of ext k = Some (Palette e)" and "s \<in> set (map fst e)"
  shows "shade (extend_colors base ext) k s = map_of e s"
proof -
  from assms(2) obtain v where v: "map_of e s = Some v"
    by (metis map_of_eq_None_iff not_None_eq set_map)
  with extend_colors_palette [OF assms(1), of base] show ?thesis
    by (auto simp: shade_def split: option.split color_value.split)
qed

lemma extend_colors_color:
  "map_of ext k = Some (Color c) \<Longrightarrow> map_of (extend_colors base ext) k = Some (Color c)"
  by (cases "map_of base k") (auto simp: extend_colors_def)

text \<open>C9: whatever base theme Tailwind starts from, extending it with this
  configuration's colours makes every shade 50--950 of \<open>signal\<close> and \<open>purple\<close>
  resolve to the value written in the configuration (so \<open>purple-700\<close> is
  \<open>#7c3aed\<close>, line 31, not the default purple's) and the three trading colours to
  theirs.\<close>

theorem extend_colors_config_wins:
  "map (shade (extend_colors base colors) ''signal'') palette_scale =
     map Some [''#f8fafc'', ''#f1f5f9'', ''#e2e8f0'', ''#cbd5e1'', ''#94a3b8'', ''#64748b'',
               ''#475569'', ''#334155'', ''#1e293b'', ''#0f172a'', ''#020617''] \<and>
   map (shade (extend_colors base colors) ''purple'') palette_scale =
     map Some [''#faf5ff'', ''#f3e8ff'', ''#e9d5ff'', ''#d8b4fe'', ''#c084fc'', ''#a855f7'',
               ''#9333ea'', ''#7c3aed'', ''#6b21a8'', ''#581c87'', ''#3b0764''] \<and>
   map (map_of (extend_colors base colors)) [''bullish'', ''bearish'', ''neutral''] =
     map (Some \<circ> Color) [''#10b981'', ''#ef4444'', ''#f59e0b'']"
proof -
  have sig: "map_of colors ''signal'' = Some (Palette signal_palette)"
    and pur: "map_of colors ''purple'' = Some (Palette purple_palette)"
    by (simp_all add: colors_def)
  have keys: "set palette_scale = set (map fst signal_palette)"
    "set palette_scale = set (map fst purple_palette)"
    by (simp_all add: palette_scale_def signal_palette_def purple_palette_def)
  have "map (shade (extend_colors base colors) ''signal'') palette_scale =
      map (map_of signal_palette) palette_scale"
    using shade_extend_colors [OF sig] keys(1) by (intro map_cong) auto
  moreover have "map (shade (extend_colors base colors) ''purple'') palette_scale =
      map (map_of purple_palette) palette_scale"
    using shade_extend_colors [OF pur] keys(2) by (intro map_cong) auto
  moreover have "map_of colors ''bullish'' = Some (Color ''#10b981'')"
    "map_of colors ''bearish'' = Some (Color ''#ef4444'')"
    "map_of colors ''neutral'' = Some (Color ''#f59e0b'')"
    by (simp_all add: colors_def)
  ultimately show ?thesis
    by (simp add: extend_colors_color palette_scale_def signal_palette_def purple_palette_def)
qed

end
