(* ===== verification/Utilities.thy ===== *)
theory Utilities
  imports Prelude
begin

text \<open>
  The plugin of \<open>src/dashboard/tailwind.config.js\<close> (lines 119--148) and the part of
  Tailwind it drives.  The plugin is a function of the plugin API that builds the object
  \<open>newUtilities\<close> (eight class rules, each a single \<open>@apply\<close> directive) and hands it
  to \<open>addUtilities\<close> once.  Tailwind registers the rules (\<open>add_utilities\<close>), splits
  each \<open>@apply\<close> parameter list into class candidates (\<open>rule_candidates\<close>), reads a
  candidate as variants, utility and opacity modifier (\<open>parse_candidate\<close>), and
  expands \<open>@apply\<close>: a candidate naming one of the plugin's own rules is replaced by
  that rule's candidates, recursively, anything else must be a core utility
  (\<open>expand\<close>, with fuel for the recursion).  The lemmas show what the plugin
  registers, the round trips of the two parsers, that the composition graph of the
  eight rules is acyclic, that acyclicity makes the fuel \<open>length\<close> of the table enough,
  and what each rule expands to.
\<close>

section \<open>The plugin's rules\<close>

text \<open>A CSS-in-JS value: a string or a nested object of declarations and at-rules.\<close>

datatype css = CssStr string | CssObj "(string \<times> css) list"

text \<open>The eight rules of \<open>newUtilities\<close> (lines 122--145), each an object whose
  only key is an \<open>@apply\<close> directive with an empty body.\<close>

definition signal_card :: css where
  "signal_card =
     CssObj [(''@apply bg-black/30 backdrop-blur-lg rounded-xl border border-purple-500/20 hover:border-purple-400/40 transition-all duration-300'', CssObj [])]"

definition signal_button :: css where
  "signal_button =
     CssObj [(''@apply bg-gradient-to-r from-purple-600 to-pink-600 text-white font-medium rounded-lg transition-all duration-200 hover:from-purple-700 hover:to-pink-700'', CssObj [])]"

definition signal_badge :: css where
  "signal_badge =
     CssObj [(''@apply inline-flex items-center px-2.5 py-0.5 rounded-full text-xs font-medium'', CssObj [])]"

definition signal_badge_bullish :: css where
  "signal_badge_bullish =
     CssObj [(''@apply signal-badge bg-green-400/20 text-green-400 border border-green-400/30'', CssObj [])]"

definition signal_badge_bearish :: css where
  "signal_badge_bearish =
     CssObj [(''@apply signal-badge bg-red-400/20 text-red-400 border border-red-400/30'', CssObj [])]"

definition signal_badge_neutral :: css where
  "signal_badge_neutral =
     CssObj [(''@apply signal-badge bg-yellow-400/20 text-yellow-400 border border-yellow-400/30'', CssObj [])]"

definition gradient_text :: css where
  "gradient_text =
     CssObj [(''@apply bg-gradient-to-r from-purple-400 to-pink-400 bg-clip-text text-transparent'', CssObj [])]"

definition market_bg :: css where
  "market_bg =
     CssObj [(''@apply bg-gradient-to-br from-slate-900 via-purple-900 to-slate-900 min-h-screen'', CssObj [])]"

definition newUtilities :: "css js_object" where
  "newUtilities =
     [(''.signal-card'', signal_card),
      (''.signal-button'', signal_button),
      (''.signal-badge'', signal_badge),
      (''.signal-badge-bullish'', signal_badge_bullish),
      (''.signal-badge-bearish'', signal_badge_bearish),
      (''.signal-badge-neutral'', signal_badge_neutral),
      (''.gradient-text'', gradient_text),
      (''.market-bg'', market_bg)]"

text \<open>The plugin receives the API's \<open>addUtilities\<close> callback, whatever state \<open>'s\<close> it
  acts on, and calls it once with \<open>newUtilities\<close>.\<close>

type_synonym 's add_utilities_fn = "css js_object \<Rightarrow> 's \<Rightarrow> 's"
type_synonym 's plugin = "'s add_utilities_fn \<Rightarrow> 's \<Rightarrow> 's"

definition signal_plugin :: "'s plugin" where
  "signal_plugin addUtilities s = addUtilities newUtilities s"

section \<open>Tailwind's side: registering rules\<close>

text \<open>The registry the build tool keeps: the rules registered so far, in order, and the
  number of \<open>addUtilities\<close> calls.  One call registers its whole object at once.\<close>

record registry =
  reg_rules :: "css js_object"
  reg_calls :: nat

definition empty_registry :: registry where
  "empty_registry = \<lparr>reg_rules = [], reg_calls = 0\<rparr>"

definition add_utilities :: "registry add_utilities_fn" where
  "add_utilities u r = r\<lparr>reg_rules := reg_rules r @ u, reg_calls := Suc (reg_calls r)\<rparr>"

text \<open>The class a rule selector declares: \<open>.name\<close> declares \<open>name\<close>.\<close>

definition selector_class :: "string \<Rightarrow> string option" where
  "selector_class sel =
     (case sel of CHR ''.'' # c \<Rightarrow> if c \<noteq> [] then Some c else None | _ \<Rightarrow> None)"

definition registered_classes :: "registry \<Rightarrow> string list" where
  "registered_classes r = List.map_filter (selector_class \<circ> fst) (reg_rules r)"

section \<open>Reading \<open>@apply\<close> directives and class candidates\<close>

text \<open>The parameters of an \<open>@apply\<close> key: what follows \<open>@apply\<close> and whitespace.\<close>

definition apply_params :: "string \<Rightarrow> string option" where
  "apply_params k =
     (if take 6 k = ''@apply'' \<and> length k > 6 \<and> is_space (k ! 6) then Some (drop 7 k) else None)"

fun rule_candidates :: "css \<Rightarrow> string list" where
  "rule_candidates (CssStr _) = []"
| "rule_candidates (CssObj kvs) =
     concat (map (\<lambda>(k, _). case apply_params k of None \<Rightarrow> [] | Some ps \<Rightarrow> words ps) kvs)"

text \<open>A class candidate \<open>v1:...:vn:utility/modifier\<close>.\<close>

record candidate =
  cand_variants :: "string list"
  cand_utility :: string
  cand_modifier :: "string option"

definition parse_candidate :: "string \<Rightarrow> candidate" where
  "parse_candidate t =
     (let parts = split_by (\<lambda>c. c = CHR '':'') t; u = last parts in
      \<lparr>cand_variants = butlast parts,
       cand_utility = takeWhile (\<lambda>c. c \<noteq> CHR ''/'') u,
       cand_modifier =
         (if CHR ''/'' \<in> set u then Some (tl (dropWhile (\<lambda>c. c \<noteq> CHR ''/'') u)) else None)\<rparr>)"

definition print_candidate :: "candidate \<Rightarrow> string" where
  "print_candidate c =
     join (CHR '':'')
       (cand_variants c @
        [cand_utility c @ (case cand_modifier c of None \<Rightarrow> [] | Some m \<Rightarrow> CHR ''/'' # m)])"

definition candidate_ok :: "candidate \<Rightarrow> bool" where
  "candidate_ok c \<longleftrightarrow>
     list_all (\<lambda>v. CHR '':'' \<notin> set v) (cand_variants c) \<and>
     CHR '':'' \<notin> set (cand_utility c) \<and> CHR ''/'' \<notin> set (cand_utility c) \<and>
     (case cand_modifier c of None \<Rightarrow> True | Some m \<Rightarrow> CHR '':'' \<notin> set m)"

section \<open>Expanding \<open>@apply\<close>\<close>

datatype apply_error = UnknownUtility string | CircularApply string

text \<open>The rules as Tailwind sees them for \<open>@apply\<close>: each declared class with the
  candidates of its body.\<close>

definition utility_table :: "css js_object \<Rightarrow> (string \<times> string list) list" where
  "utility_table rules =
     List.map_filter
       (\<lambda>(sel, body). map_option (\<lambda>c. (c, rule_candidates body)) (selector_class sel)) rules"

definition ref_name :: "string \<Rightarrow> string" where
  "ref_name t = cand_utility (parse_candidate t)"

text \<open>A candidate refers to a declared rule when its utility part is that rule's class
  (variants allowed, no modifier).\<close>

definition is_ref :: "(string \<times> string list) list \<Rightarrow> string \<Rightarrow> bool" where
  "is_ref ut t \<longleftrightarrow> cand_modifier (parse_candidate t) = None \<and> ref_name t \<in> set (map fst ut)"

text \<open>The composition graph: an edge from a rule to every declared rule it applies.\<close>

definition ref_edges :: "(string \<times> string list) list \<Rightarrow> (string \<times> string) list" where
  "ref_edges ut =
     concat (map (\<lambda>(c, body). map (\<lambda>t. (c, ref_name t)) (filter (is_ref ut) body)) ut)"

definition prefix_variants :: "string list \<Rightarrow> string \<Rightarrow> string" where
  "prefix_variants vs r = concat (map (\<lambda>v. v @ '':'') vs) @ r"

text \<open>
  Expansion of a candidate list with fuel \<open>n\<close>: a reference to a declared rule is
  replaced by the expansion of that rule's candidates (with one unit of fuel less), its
  variants carried onto every result; any other candidate must be known to the core
  (\<open>core\<close>, Tailwind's own utilities, a parameter of the model) or the build fails
  with \<open>UnknownUtility\<close>.  Running out of fuel is reported as \<open>CircularApply\<close>,
  Tailwind's error for an \<open>@apply\<close> cycle; \<open>expand_enough_fuel\<close> shows that an
  acyclic table never reaches it with fuel \<open>length ut\<close>.  The first error wins.
\<close>

fun expand ::
  "nat \<Rightarrow> (string \<times> string list) list \<Rightarrow> (string \<Rightarrow> bool) \<Rightarrow> string list \<Rightarrow>
   apply_error + string list" where
  "expand n ut core [] = Inr []"
| "expand n ut core (t # ts) =
     (case (if is_ref ut t then
              (case n of
                 0 \<Rightarrow> Inl (CircularApply t)
               | Suc m \<Rightarrow>
                   (case map_of ut (ref_name t) of
                      None \<Rightarrow> Inl (UnknownUtility t)
                    | Some body \<Rightarrow>
                        map_sum id (map (prefix_variants (cand_variants (parse_candidate t))))
                          (expand m ut core body)))
            else if core t then Inr [t] else Inl (UnknownUtility t)) of
        Inl e \<Rightarrow> Inl e
      | Inr xs \<Rightarrow> (case expand n ut core ts of Inl e \<Rightarrow> Inl e | Inr ys \<Rightarrow> Inr (xs @ ys)))"

definition nonref_candidates :: "(string \<times> string list) list \<Rightarrow> string list" where
  "nonref_candidates ut = filter (\<lambda>t. \<not> is_ref ut t) (concat (map snd ut))"

section \<open>Registering the plugin's rules\<close>

lemmas newUtilities_defs = newUtilities_def signal_card_def signal_button_def signal_badge_def
  signal_badge_bullish_def signal_badge_bearish_def signal_badge_neutral_def gradient_text_def
  market_bg_def

lemmas utility_eval = utility_table_def newUtilities_defs selector_class_def apply_params_def
  words_def is_space_def ref_edges_def is_ref_def ref_name_def parse_candidate_def
  prefix_variants_def List.map_filter_def nonref_candidates_def

text \<open>The rule table of the plugin as \<open>@apply\<close> sees it, evaluated once.\<close>

lemma utility_table_newUtilities:
  "utility_table newUtilities =
     [(''signal-card'', [''bg-black/30'', ''backdrop-blur-lg'', ''rounded-xl'', ''border'',
        ''border-purple-500/20'', ''hover:border-purple-400/40'', ''transition-all'', ''duration-300'']),
      (''signal-button'', [''bg-gradient-to-r'', ''from-purple-600'', ''to-pink-600'', ''text-white'',
        ''font-medium'', ''rounded-lg'', ''transition-all'', ''duration-200'', ''hover:from-purple-700'',
        ''hover:to-pink-700'']),
      (''signal-badge'', [''inline-flex'', ''items-center'', ''px-2.5'', ''py-0.5'', ''rounded-full'',
        ''text-xs'', ''font-medium'']),
      (''signal-badge-bullish'', [''signal-badge'', ''bg-green-400/20'', ''text-green-400'', ''border'',
        ''border-green-400/30'']),
      (''signal-badge-bearish'', [''signal-badge'', ''bg-red-400/20'', ''text-red-400'', ''border'',
        ''border-red-400/30'']),
      (''signal-badge-neutral'', [''signal-badge'', ''bg-yellow-400/20'', ''text-yellow-400'', ''border'',
        ''border-yellow-400/30'']),
      (''gradient-text'', [''bg-gradient-to-r'', ''from-purple-400'', ''to-pink-400'', ''bg-clip-text'',
        ''text-transparent'']),
      (''market-bg'', [''bg-gradient-to-br'', ''from-slate-900'', ''via-purple-900'', ''to-slate-900'',
        ''min-h-screen''])]"
  by (simp add: utility_table_def newUtilities_defs selector_class_def apply_params_def words_def
      is_space_def List.map_filter_def)

lemmas expand_eval = utility_table_newUtilities is_ref_def ref_name_def parse_candidate_def
  prefix_variants_def nonref_candidates_def

text \<open>C10: running the plugin against Tailwind's registry appends, in one
  \<open>addUtilities\<close> call, exactly the eight classes \<open>signal-card\<close>,
  \<open>signal-button\<close>, \<open>signal-badge\<close>, its three variants, \<open>gradient-text\<close>
  and \<open>market-bg\<close>, whatever was registered before, and the eight selectors are
  distinct.\<close>

theorem signal_plugin_registers:
  "registered_classes (signal_plugin add_utilities r) =
     registered_classes r @
     [''signal-card'', ''signal-button'', ''signal-badge'', ''signal-badge-bullish'',
      ''signal-badge-bearish'', ''signal-badge-neutral'', ''gradient-text'', ''market-bg''] \<and>
   reg_calls (signal_plugin add_utilities r) = Suc (reg_calls r) \<and>
   unique_keys newUtilities"
  by (simp add: signal_plugin_def add_utilities_def registered_classes_def unique_keys_def
      utility_eval)

section \<open>Round trips of the parsers\<close>

text \<open>The candidate parser loses nothing: printing the parsed candidate gives back
  the candidate string, for every string.\<close>

theorem print_parse_candidate: "print_candidate (parse_candidate t) = t"
proof -
  let ?parts = "split_by (\<lambda>c. c = CHR '':'') t"
  let ?u = "last ?parts"
  let ?X = "takeWhile (\<lambda>c. c \<noteq> CHR ''/'') ?u @
      (case (if CHR ''/'' \<in> set ?u
             then Some (tl (dropWhile (\<lambda>c. c \<noteq> CHR ''/'') ?u)) else None) of
         None \<Rightarrow> [] | Some m \<Rightarrow> CHR ''/'' # m)"
  have "print_candidate (parse_candidate t) = join (CHR '':'') (butlast ?parts @ [?X])"
    by (simp add: print_candidate_def parse_candidate_def Let_def)
  also have "?X = ?u"
    using take_drop_sep [of "CHR ''/''" ?u] by (cases "CHR ''/'' \<in> set ?u") simp_all
  also have "join (CHR '':'') (butlast ?parts @ [?u]) = join (CHR '':'') ?parts"
    by simp
  also have "\<dots> = t" by (rule join_split_by) simp
  finally show ?thesis .
qed

text \<open>Conversely, a well-formed candidate (no \<open>:\<close> inside a part, no \<open>/\<close> in
  the utility) survives printing and parsing unchanged.\<close>

theorem parse_print_candidate:
  assumes "candidate_ok c"
  shows "parse_candidate (print_candidate c) = c"
proof -
  let ?w = "cand_utility c @ (case cand_modifier c of None \<Rightarrow> [] | Some m \<Rightarrow> CHR ''/'' # m)"
  have w: "CHR '':'' \<notin> set ?w" using assms by (auto simp: candidate_ok_def split: option.splits)
  have s: "split_by (\<lambda>c. c = CHR '':'') (print_candidate c) = cand_variants c @ [?w]"
    unfolding print_candidate_def
    by (rule split_by_join) (use assms w in \<open>auto simp: candidate_ok_def list_all_iff\<close>)
  have t: "takeWhile (\<lambda>x. x \<noteq> CHR ''/'') ?w = cand_utility c"
    using assms
    by (auto simp: candidate_ok_def takeWhile_upto_sep takeWhile_eq_all_conv split: option.splits)
  have m: "(if CHR ''/'' \<in> set ?w then Some (tl (dropWhile (\<lambda>x. x \<noteq> CHR ''/'') ?w)) else None)
      = cand_modifier c"
    using assms by (auto simp: candidate_ok_def dropWhile_upto_sep split: option.splits)
  show ?thesis
    unfolding parse_candidate_def Let_def s last_snoc butlast_snoc t m by simp
qed

theorem parse_print_candidate_witness:
  "candidate_ok \<lparr>cand_variants = [''hover''], cand_utility = ''border-purple-400'',
                  cand_modifier = Some ''40''\<rparr> \<and>
   parse_candidate (print_candidate \<lparr>cand_variants = [''hover''],
     cand_utility = ''border-purple-400'', cand_modifier = Some ''40''\<rparr>) =
   \<lparr>cand_variants = [''hover''], cand_utility = ''border-purple-400'', cand_modifier = Some ''40''\<rparr>"
proof -
  have h: "candidate_ok \<lparr>cand_variants = [''hover''], cand_utility = ''border-purple-400'',
                  cand_modifier = Some ''40''\<rparr>"
    by (simp add: candidate_ok_def)
  show ?thesis using h parse_print_candidate [OF h] by simp
qed

lemma apply_params_prefix:
  "apply_params (CHR ''@'' # CHR ''a'' # CHR ''p'' # CHR ''p'' # CHR ''l'' # CHR ''y'' # CHR '' '' # s)
   = Some s"
  by (simp add: apply_params_def is_space_def)

text \<open>The \<open>@apply\<close> directive round trip: a rule whose only key is
  \<open>@apply\<close> followed by space-separated candidates yields exactly those candidates,
  in order.\<close>

theorem apply_directive_roundtrip:
  assumes "list_all (\<lambda>w. w \<noteq> [] \<and> list_all (Not \<circ> is_space) w) ts"
  shows "rule_candidates (CssObj [(''@apply '' @ join (CHR '' '') ts, CssObj [])]) = ts"
proof -
  have "words (join (CHR '' '') ts) = ts"
    using assms by (intro words_join) (auto simp: is_space_def list_all_iff)
  then show ?thesis by (simp add: apply_params_prefix)
qed

theorem apply_directive_roundtrip_witness:
  "list_all (\<lambda>w. w \<noteq> [] \<and> list_all (Not \<circ> is_space) w) [''signal-badge'', ''border''] \<and>
   rule_candidates (CssObj [(''@apply '' @ join (CHR '' '') [''signal-badge'', ''border''], CssObj [])])
     = [''signal-badge'', ''border'']"
proof -
  have h: "list_all (\<lambda>w. w \<noteq> [] \<and> list_all (Not \<circ> is_space) w) [''signal-badge'', ''border'']"
    by (simp add: is_space_def)
  show ?thesis using h apply_directive_roundtrip [OF h] by simp
qed

section \<open>Expansion: fuel, acyclicity and results\<close>

lemma ref_edgesI:
  assumes "(c, body) \<in> set ut" and "t \<in> set body" and "is_ref ut t"
  shows "(c, ref_name t) \<in> set (ref_edges ut)"
proof -
  have "(c, ref_name t) \<in> set (map (\<lambda>t. (c, ref_name t)) (filter (is_ref ut) body))"
    using assms(2,3) by simp
  moreover have "map (\<lambda>t. (c, ref_name t)) (filter (is_ref ut) body) \<in>
      set (map (\<lambda>(c, body). map (\<lambda>t. (c, ref_name t)) (filter (is_ref ut) body)) ut)"
    using assms(1) unfolding set_map by (rule rev_image_eqI) simp
  ultimately show ?thesis unfolding ref_edges_def set_concat by blast
qed

text \<open>The characteristic cases of \<open>expand\<close> on a non-empty list.\<close>

lemma expand_Cons_core:
  "\<not> is_ref ut t \<Longrightarrow>
   expand n ut core (t # ts) =
     (if core t then (case expand n ut core ts of Inl e \<Rightarrow> Inl e | Inr ys \<Rightarrow> Inr (t # ys))
      else Inl (UnknownUtility t))"
  by (simp split: sum.split)

lemma expand_Cons_zero: "is_ref ut t \<Longrightarrow> expand 0 ut core (t # ts) = Inl (CircularApply t)"
  by simp

lemma expand_Cons_ref:
  "is_ref ut t \<Longrightarrow> map_of ut (ref_name t) = Some body \<Longrightarrow>
   expand (Suc m) ut core (t # ts) =
     (case expand m ut core body of
        Inl e \<Rightarrow> Inl e
      | Inr xs \<Rightarrow>
          (case expand (Suc m) ut core ts of
             Inl e \<Rightarrow> Inl e
           | Inr ys \<Rightarrow> Inr (map (prefix_variants (cand_variants (parse_candidate t))) xs @ ys)))"
  by (simp split: sum.split)

lemma is_ref_body:
  assumes "is_ref ut t"
  obtains body where "map_of ut (ref_name t) = Some body"
proof -
  from assms have "ref_name t \<in> fst ` set ut" by (simp add: is_ref_def)
  then show ?thesis using that by (metis map_of_eq_None_iff not_None_eq)
qed

text \<open>Running out of fuel means following \<open>n + 1\<close> references in a row: a chain of
  declared rules of that length that starts at a reference of the input.\<close>

lemma expand_circular_chain:
  "expand n ut core ts = Inl (CircularApply t') \<Longrightarrow>
   \<exists>xs. length xs = Suc n \<and> chain (set (ref_edges ut)) xs \<and> set xs \<subseteq> set (map fst ut) \<and>
        hd xs \<in> ref_name ` set (filter (is_ref ut) ts)"
proof (induction n ut core ts rule: expand.induct)
  case (1 n ut core)
  then show ?case by simp
next
  case (2 n ut core t ts)
  show ?case
  proof (cases "is_ref ut t")
    case False
    show ?thesis
    proof (cases "core t")
      case True
      with False "2.prems" have ts: "expand n ut core ts = Inl (CircularApply t')"
        by (simp add: expand_Cons_core split: sum.splits)
      have "\<exists>xs. length xs = Suc n \<and> chain (set (ref_edges ut)) xs \<and>
          set xs \<subseteq> set (map fst ut) \<and> hd xs \<in> ref_name ` set (filter (is_ref ut) ts)"
        using "2.IH"(2) [of "[t]"] False True ts by simp
      with False show ?thesis by simp
    next
      case nc: False
      with False "2.prems" show ?thesis by (simp add: expand_Cons_core)
    qed
  next
    case True
    then have named: "ref_name t \<in> set (map fst ut)" by (simp add: is_ref_def)
    obtain body where body: "map_of ut (ref_name t) = Some body"
      using True by (rule is_ref_body)
    show ?thesis
    proof (cases n)
      case 0
      with True named show ?thesis by (intro exI [of _ "[ref_name t]"]) simp
    next
      case (Suc m)
      show ?thesis
      proof (cases "expand m ut core body")
        case (Inl e)
        with "2.prems" True Suc body have "expand m ut core body = Inl (CircularApply t')"
          by (simp add: expand_Cons_ref)
        from "2.IH"(1) [OF True Suc body this] obtain xs where
          xs: "length xs = Suc m" "chain (set (ref_edges ut)) xs" "set xs \<subseteq> set (map fst ut)"
              "hd xs \<in> ref_name ` set (filter (is_ref ut) body)"
          by blast
        from xs(1) obtain y ys where y: "xs = y # ys" by (cases xs) auto
        from xs(4) y obtain u where u: "u \<in> set body" "is_ref ut u" "y = ref_name u" by auto
        from body have "(ref_name t, body) \<in> set ut" by (rule map_of_SomeD)
        from ref_edgesI [OF this u(1,2)] u(3) have "(ref_name t, y) \<in> set (ref_edges ut)"
          by simp
        with xs y Suc True named show ?thesis
          by (intro exI [of _ "ref_name t # xs"]) simp
      next
        case (Inr r)
        with "2.prems" True Suc body have ts: "expand n ut core ts = Inl (CircularApply t')"
          by (simp add: expand_Cons_ref split: sum.splits)
        have "\<exists>xs. length xs = Suc n \<and> chain (set (ref_edges ut)) xs \<and>
            set xs \<subseteq> set (map fst ut) \<and> hd xs \<in> ref_name ` set (filter (is_ref ut) ts)"
          using "2.IH"(2) [of "map (prefix_variants (cand_variants (parse_candidate t))) r"]
            True Suc body Inr ts
          by simp
        then show ?thesis by auto
      qed
    qed
  qed
qed

text \<open>Termination of \<open>@apply\<close> expansion: when the composition graph is acyclic,
  fuel equal to the number of rules is enough, so expansion never reports a circular
  \<open>@apply\<close>; whatever it returns is a real result or a real unknown-utility error.\<close>

theorem expand_enough_fuel:
  assumes "acyclic (set (ref_edges ut))" and "length ut \<le> n"
  shows "expand n ut core ts \<noteq> Inl (CircularApply t)"
proof
  assume "expand n ut core ts = Inl (CircularApply t)"
  from expand_circular_chain [OF this] obtain xs where
    "length xs = Suc n" "chain (set (ref_edges ut)) xs" "set xs \<subseteq> set (map fst ut)"
    by blast
  with assms(1) have "Suc n \<le> length ut"
    using chain_length_acyclic [of _ xs "map fst ut"] by auto
  with assms(2) show False by simp
qed

lemma ref_edges_newUtilities:
  "set (ref_edges (utility_table newUtilities)) =
     {(''signal-badge-bullish'', ''signal-badge''), (''signal-badge-bearish'', ''signal-badge''),
      (''signal-badge-neutral'', ''signal-badge'')}"
  by (simp add: expand_eval ref_edges_def)

lemma length_utility_table_newUtilities: "length (utility_table newUtilities) = 8"
  by (simp add: utility_table_newUtilities)

theorem expand_enough_fuel_witness:
  "acyclic (set (ref_edges (utility_table newUtilities))) \<and>
   length (utility_table newUtilities) \<le> 8 \<and>
   expand 8 (utility_table newUtilities) (\<lambda>_. True) [''signal-badge-bullish''] \<noteq>
     Inl (CircularApply ''signal-badge'')"
proof -
  have a: "acyclic (set (ref_edges (utility_table newUtilities)))"
    unfolding ref_edges_newUtilities by (rule acyclic_no_two_step) auto
  have l: "length (utility_table newUtilities) \<le> 8"
    by (simp add: length_utility_table_newUtilities)
  show ?thesis
    using a l expand_enough_fuel [OF a l, of "\<lambda>_. True" "[''signal-badge-bullish'']" "''signal-badge''"]
    by blast
qed

text \<open>C2: the composition graph of the plugin's eight rules is acyclic: its only edges
  lead from each badge variant to \<open>signal-badge\<close>, which applies no rule of the
  plugin.\<close>

theorem newUtilities_acyclic: "acyclic (set (ref_edges (utility_table newUtilities)))"
  unfolding ref_edges_newUtilities by (rule acyclic_no_two_step) auto

text \<open>More fuel never changes a successful expansion.\<close>

theorem expand_mono:
  "expand n ut core ts = Inr r \<Longrightarrow> n \<le> k \<Longrightarrow> expand k ut core ts = Inr r"
proof (induction n ut core ts arbitrary: r k rule: expand.induct)
  case (1 n ut core)
  then show ?case by simp
next
  case (2 n ut core t ts)
  show ?case
  proof (cases "is_ref ut t")
    case False
    with "2.prems"(1) obtain ys where c: "core t" and ys: "expand n ut core ts = Inr ys"
      and r: "r = t # ys"
      by (auto split: if_splits sum.splits)
    from "2.IH"(2) [of "[t]", OF _ ys "2.prems"(2)] False c
    have "expand k ut core ts = Inr ys" by simp
    with False c r show ?thesis by simp
  next
    case True
    with "2.prems"(1) obtain m body where n: "n = Suc m"
      and body: "map_of ut (ref_name t) = Some body"
      by (auto split: nat.splits option.splits sum.splits)
    with "2.prems" obtain xs ys where xs: "expand m ut core body = Inr xs"
      and ys: "expand n ut core ts = Inr ys"
      and r: "r = map (prefix_variants (cand_variants (parse_candidate t))) xs @ ys"
      using True by (auto simp: map_sum_eq_Inr_iff split: sum.splits)
    from "2.prems"(2) n obtain m' where k: "k = Suc m'" and "m \<le> m'" by (cases k) auto
    with "2.IH"(1) [OF True n body xs] have xs': "expand m' ut core body = Inr xs" by simp
    from "2.IH"(2) [OF _ ys "2.prems"(2)] True n body xs
    have "expand k ut core ts = Inr ys" by simp
    with True k body xs' r show ?thesis by simp
  qed
qed

theorem expand_mono_witness:
  "expand 2 (utility_table newUtilities) (\<lambda>_. True) [''signal-badge-bullish''] =
     Inr [''inline-flex'', ''items-center'', ''px-2.5'', ''py-0.5'', ''rounded-full'', ''text-xs'',
          ''font-medium'', ''bg-green-400/20'', ''text-green-400'', ''border'', ''border-green-400/30''] \<and>
   (2::nat) \<le> 8 \<and>
   expand 8 (utility_table newUtilities) (\<lambda>_. True) [''signal-badge-bullish''] =
     Inr [''inline-flex'', ''items-center'', ''px-2.5'', ''py-0.5'', ''rounded-full'', ''text-xs'',
          ''font-medium'', ''bg-green-400/20'', ''text-green-400'', ''border'', ''border-green-400/30'']"
proof -
  have h: "expand 2 (utility_table newUtilities) (\<lambda>_. True) [''signal-badge-bullish''] =
     Inr [''inline-flex'', ''items-center'', ''px-2.5'', ''py-0.5'', ''rounded-full'', ''text-xs'',
          ''font-medium'', ''bg-green-400/20'', ''text-green-400'', ''border'', ''border-green-400/30'']"
    by (simp add: expand_eval)
  show ?thesis using h expand_mono [OF h, of 8] by simp
qed

text \<open>C4: each badge variant composes the base badge: with any core that knows the
  plugin's other candidates, \<open>signal-badge-bullish\<close>, \<open>-bearish\<close> and
  \<open>-neutral\<close> expand to the seven candidates of \<open>signal-badge\<close> followed by their
  own four colour candidates.\<close>

theorem badge_variants_compose:
  assumes "list_all core (nonref_candidates (utility_table newUtilities))"
  shows "map (\<lambda>c. expand 8 (utility_table newUtilities) core [c])
           [''signal-badge-bullish'', ''signal-badge-bearish'', ''signal-badge-neutral''] =
         map (\<lambda>extra. Inr ([''inline-flex'', ''items-center'', ''px-2.5'', ''py-0.5'',
                               ''rounded-full'', ''text-xs'', ''font-medium''] @ extra))
           [[''bg-green-400/20'', ''text-green-400'', ''border'', ''border-green-400/30''],
            [''bg-red-400/20'', ''text-red-400'', ''border'', ''border-red-400/30''],
            [''bg-yellow-400/20'', ''text-yellow-400'', ''border'', ''border-yellow-400/30'']]"
  using assms by (simp add: expand_eval)

theorem badge_variants_compose_witness:
  "list_all (\<lambda>t. t \<in> set (nonref_candidates (utility_table newUtilities)))
     (nonref_candidates (utility_table newUtilities)) \<and>
   expand 8 (utility_table newUtilities)
     (\<lambda>t. t \<in> set (nonref_candidates (utility_table newUtilities))) [''signal-badge-neutral''] =
   Inr [''inline-flex'', ''items-center'', ''px-2.5'', ''py-0.5'', ''rounded-full'', ''text-xs'',
        ''font-medium'', ''bg-yellow-400/20'', ''text-yellow-400'', ''border'', ''border-yellow-400/30'']"
proof -
  have h: "list_all (\<lambda>t. t \<in> set (nonref_candidates (utility_table newUtilities)))
     (nonref_candidates (utility_table newUtilities))"
    by (simp add: list_all_iff)
  show ?thesis using h badge_variants_compose [OF h] by simp
qed

section \<open>Expansion of the plugin's rules never reports a cycle\<close>

text \<open>C3: \<open>@apply\<close> expansion over the plugin's rules always terminates with a real
  answer: with fuel eight (the number of rules), for every set of core utilities and
  every candidate list, it never reports a circular \<open>@apply\<close>.\<close>

theorem newUtilities_expand_no_cycle:
  "expand (length (utility_table newUtilities)) (utility_table newUtilities) core ts \<noteq>
     Inl (CircularApply t)"
proof -
  have "acyclic (set (ref_edges (utility_table newUtilities)))"
    unfolding ref_edges_newUtilities by (rule acyclic_no_two_step) auto
  then show ?thesis by (rule expand_enough_fuel) simp
qed

end
