(* ===== verification/Bootstrap.thy ===== *)
theory Bootstrap
  imports Prelude
begin

text \<open>
  The entry point \<open>src/dashboard/src/main.js\<close>: \<open>createApp(SimpleApp)\<close> followed by
  \<open>app.mount('#app')\<close>.  The root component \<open>SimpleApp\<close> lives outside the sources
  (\<open>SimpleApp.vue\<close>) and is a type variable \<open>'c\<close> here: nothing below depends on
  what it renders.  The host document is a list of elements in document order, each with
  its \<open>id\<close>, its children and its attributes; \<open>app_mount\<close> follows the mount
  contract of the spec (locate the element, replace its content by the rendered root,
  fail with no DOM change when it is missing, and attach one root per application).  The
  page's lifetime is the inductive \<open>page_run\<close>: the start by \<open>main\<close>, then any further
  \<open>mount\<close> calls; the lemmas show what \<open>main\<close> does on both branches and that every
  state of a run holds exactly one rendered root, in the mount element.
\<close>

section \<open>The document and the application\<close>

datatype 'c node = TextNode string | Rendered 'c

record 'c element =
  el_id :: string
  el_children :: "'c node list"

type_synonym 'c document = "'c element list"

record 'c app =
  app_component :: 'c
  app_mounted :: bool
  app_container :: "nat option"

datatype mount_error = MountTargetNotFound string | AlreadyMounted

fun first_index :: "('a \<Rightarrow> bool) \<Rightarrow> 'a list \<Rightarrow> nat option" where
  "first_index p [] = None"
| "first_index p (x # xs) = (if p x then Some 0 else map_option Suc (first_index p xs))"

text \<open>\<open>document.querySelector\<close> for an id selector \<open>#name\<close>: the first element in
  document order with that id.  Other selector forms are not used by the source.\<close>

definition query_selector :: "string \<Rightarrow> 'c document \<Rightarrow> nat option" where
  "query_selector sel doc =
     (case sel of CHR ''#'' # name \<Rightarrow> first_index (\<lambda>e. el_id e = name) doc | _ \<Rightarrow> None)"

definition create_app :: "'c \<Rightarrow> 'c app" where
  "create_app c = \<lparr>app_component = c, app_mounted = False, app_container = None\<rparr>"

text \<open>\<open>app.mount(sel)\<close>: an application mounts once; the target must exist; mounting
  replaces the target's content by the rendered root component.\<close>

definition app_mount ::
  "'c app \<Rightarrow> string \<Rightarrow> 'c document \<Rightarrow> mount_error + ('c app \<times> 'c document)" where
  "app_mount app sel doc =
     (if app_mounted app then Inl AlreadyMounted
      else case query_selector sel doc of
             None \<Rightarrow> Inl (MountTargetNotFound sel)
           | Some i \<Rightarrow>
               Inr (app\<lparr>app_mounted := True, app_container := Some i\<rparr>,
                    doc[i := (doc ! i)\<lparr>el_children := [Rendered (app_component app)]\<rparr>]))"

text \<open>\<open>main.js\<close>: create the application for the root component and mount it on
  \<open>#app\<close>.\<close>

definition main :: "'c \<Rightarrow> 'c document \<Rightarrow> mount_error + ('c app \<times> 'c document)" where
  "main SimpleApp doc = (let app = create_app SimpleApp in app_mount app ''#app'' doc)"

section \<open>Rendered roots and the page's run\<close>

fun is_rendered :: "'c node \<Rightarrow> bool" where
  "is_rendered (Rendered _) = True"
| "is_rendered (TextNode _) = False"

definition el_roots :: "'c element \<Rightarrow> nat" where
  "el_roots e = length (filter is_rendered (el_children e))"

definition root_count :: "'c document \<Rightarrow> nat" where
  "root_count doc = sum_list (map el_roots doc)"

text \<open>The states a page goes through: the state \<open>main\<close> leaves, then whatever a further
  successful \<open>mount\<close> call produces.\<close>

inductive page_run :: "'c \<Rightarrow> 'c document \<Rightarrow> 'c app \<times> 'c document \<Rightarrow> bool"
  for c :: 'c and doc0 :: "'c document" where
  start: "main c doc0 = Inr s \<Longrightarrow> page_run c doc0 s"
| remount: "page_run c doc0 (a, d) \<Longrightarrow> app_mount a sel d = Inr s \<Longrightarrow> page_run c doc0 s"

text \<open>The state invariant: the application is mounted on an element of the document,
  that element's only child is the rendered root, and it is the only rendered root of the
  document.\<close>

definition mounted_once :: "'c \<Rightarrow> 'c app \<times> 'c document \<Rightarrow> bool" where
  "mounted_once c s \<longleftrightarrow>
     (let (a, d) = s in
      app_mounted a \<and> app_component a = c \<and> root_count d = 1 \<and>
      (case app_container a of
         None \<Rightarrow> False
       | Some i \<Rightarrow> i < length d \<and> el_children (d ! i) = [Rendered c]))"

section \<open>Lemmas on the document\<close>

lemma first_index_SomeD:
  "first_index p xs = Some i \<Longrightarrow> i < length xs \<and> p (xs ! i)"
  by (induction xs arbitrary: i) (auto split: if_splits)

lemma first_index_None_iff: "first_index p xs = None \<longleftrightarrow> \<not> list_ex p xs"
  by (induction xs) auto

lemma first_index_least:
  "first_index p xs = Some i \<Longrightarrow> j < i \<Longrightarrow> \<not> p (xs ! j)"
proof (induction xs arbitrary: i j)
  case Nil
  then show ?case by simp
next
  case (Cons x xs)
  then show ?case by (cases j) (auto split: if_splits)
qed

lemma query_selector_id:
  "query_selector (CHR ''#'' # name) doc = first_index (\<lambda>e. el_id e = name) doc"
  by (simp add: query_selector_def)

lemma root_count_update:
  "i < length d \<Longrightarrow> root_count (d[i := x]) + el_roots (d ! i) = root_count d + el_roots x"
proof (induction d arbitrary: i)
  case Nil
  then show ?case by simp
next
  case (Cons e d)
  then show ?case by (cases i) (auto simp: root_count_def)
qed

lemma el_roots_rendered [simp]: "el_roots (e\<lparr>el_children := [Rendered c]\<rparr>) = 1"
  by (simp add: el_roots_def)

lemma main_Inr:
  "main c doc = Inr s \<longleftrightarrow>
   (\<exists>i. first_index (\<lambda>e. el_id e = ''app'') doc = Some i \<and>
        s = (\<lparr>app_component = c, app_mounted = True, app_container = Some i\<rparr>,
             doc[i := (doc ! i)\<lparr>el_children := [Rendered c]\<rparr>]))"
  by (auto simp: main_def create_app_def app_mount_def query_selector_id Let_def split: option.splits)

section \<open>What the entry point does\<close>

text \<open>C5: on a document with an element \<open>id="app"\<close>, \<open>main\<close> mounts the root on
  the first such element: the application is mounted there, that element's content is
  replaced by exactly one child, the rendered root, keeping its id, and every other
  element is untouched.\<close>

theorem main_mounts_root:
  assumes "list_ex (\<lambda>e. el_id e = ''app'') doc"
  shows "\<exists>i a d. main c doc = Inr (a, d) \<and> app_mounted a \<and> app_container a = Some i \<and>
           length d = length doc \<and> el_id (d ! i) = ''app'' \<and> el_children (d ! i) = [Rendered c] \<and>
           (\<forall>j < length doc. j \<noteq> i \<longrightarrow> d ! j = doc ! j) \<and>
           list_all (\<lambda>j. el_id (doc ! j) \<noteq> ''app'') [0..<i]"
proof -
  obtain i where i: "first_index (\<lambda>e. el_id e = ''app'') doc = Some i"
    using assms first_index_None_iff by fastforce
  from first_index_SomeD [OF i] have len: "i < length doc" and id: "el_id (doc ! i) = ''app''"
    by auto
  have first: "list_all (\<lambda>j. el_id (doc ! j) \<noteq> ''app'') [0..<i]"
    using first_index_least [OF i] by (simp add: list_all_iff)
  have "main c doc = Inr (\<lparr>app_component = c, app_mounted = True, app_container = Some i\<rparr>,
             doc[i := (doc ! i)\<lparr>el_children := [Rendered c]\<rparr>])"
    using i by (simp add: main_Inr)
  with len id first show ?thesis by (intro exI [of _ i]) auto
qed

theorem main_mounts_root_witness:
  "list_ex (\<lambda>e. el_id e = ''app'')
     [\<lparr>el_id = ''header'', el_children = []\<rparr>, \<lparr>el_id = ''app'', el_children = [TextNode ''Loading'']\<rparr>] \<and>
   main (0::nat)
     [\<lparr>el_id = ''header'', el_children = []\<rparr>, \<lparr>el_id = ''app'', el_children = [TextNode ''Loading'']\<rparr>] =
   Inr (\<lparr>app_component = 0, app_mounted = True, app_container = Some 1\<rparr>,
        [\<lparr>el_id = ''header'', el_children = []\<rparr>, \<lparr>el_id = ''app'', el_children = [Rendered 0]\<rparr>])"
proof -
  let ?doc = "[\<lparr>el_id = ''header'', el_children = []\<rparr>,
               \<lparr>el_id = ''app'', el_children = [TextNode ''Loading'']\<rparr>] :: nat document"
  have h: "list_ex (\<lambda>e. el_id e = ''app'') ?doc" by simp
  from main_mounts_root [OF h, of 0] have "\<exists>s. main (0::nat) ?doc = Inr s" by blast
  with h show ?thesis by (simp add: main_def create_app_def app_mount_def query_selector_def)
qed

text \<open>C8: on a document with no element \<open>id="app"\<close>, \<open>main\<close> fails with a startup
  error naming the selector and returns no new document: nothing is mutated.\<close>

theorem main_missing_target:
  assumes "\<not> list_ex (\<lambda>e. el_id e = ''app'') doc"
  shows "main c doc = Inl (MountTargetNotFound ''#app'')"
proof -
  from assms have "first_index (\<lambda>e. el_id e = ''app'') doc = None"
    by (simp add: first_index_None_iff)
  then show ?thesis by (simp add: main_def create_app_def app_mount_def query_selector_id Let_def)
qed

theorem main_missing_target_witness:
  "\<not> list_ex (\<lambda>e. el_id e = ''app'') [\<lparr>el_id = ''root'', el_children = []\<rparr>] \<and>
   main (0::nat) [\<lparr>el_id = ''root'', el_children = []\<rparr>] = Inl (MountTargetNotFound ''#app'')"
proof -
  have h: "\<not> list_ex (\<lambda>e. el_id e = ''app'') [\<lparr>el_id = ''root'', el_children = [] :: nat node list\<rparr>]"
    by simp
  show ?thesis using h main_missing_target [OF h, of 0] by simp
qed

section \<open>The page's run\<close>

lemma main_mounted_once:
  assumes "main c doc0 = Inr s" and "root_count doc0 = 0"
  shows "mounted_once c s"
proof -
  from assms(1) obtain i where i: "first_index (\<lambda>e. el_id e = ''app'') doc0 = Some i"
    and s: "s = (\<lparr>app_component = c, app_mounted = True, app_container = Some i\<rparr>,
                 doc0[i := (doc0 ! i)\<lparr>el_children := [Rendered c]\<rparr>])"
    by (auto simp: main_Inr)
  from first_index_SomeD [OF i] have len: "i < length doc0" by simp
  have "root_count (doc0[i := (doc0 ! i)\<lparr>el_children := [Rendered c]\<rparr>]) + el_roots (doc0 ! i)
      = root_count doc0 + 1"
    using root_count_update [OF len] by simp
  moreover have "el_roots (doc0 ! i) = 0"
    using assms(2) len by (simp add: root_count_def)
  ultimately show ?thesis using s len assms(2) by (simp add: mounted_once_def)
qed

lemma mounted_once_mounted: "mounted_once c (a, d) \<Longrightarrow> app_mounted a"
  by (simp add: mounted_once_def)

text \<open>C6: in every state of a page's run that starts from a document with no rendered
  root, the application is mounted on an element of the document whose only child is
  the rendered root, and that root is the only one in the document.\<close>

theorem page_run_mounted_once:
  assumes "page_run c doc0 s" and "root_count doc0 = 0"
  shows "mounted_once c s"
  using assms(1)
proof (induction rule: page_run.induct)
  case (start s)
  then show ?case using assms(2) by (rule main_mounted_once)
next
  case (remount a d sel s)
  from remount.IH have "app_mounted a" by (rule mounted_once_mounted)
  with remount.hyps(2) show ?case by (simp add: app_mount_def)
qed

theorem page_run_mounted_once_witness:
  "page_run (0::nat) [\<lparr>el_id = ''app'', el_children = [TextNode ''Loading'']\<rparr>]
     (\<lparr>app_component = 0, app_mounted = True, app_container = Some 0\<rparr>,
      [\<lparr>el_id = ''app'', el_children = [Rendered 0]\<rparr>]) \<and>
   root_count [\<lparr>el_id = ''app'', el_children = [TextNode ''Loading'' :: nat node]\<rparr>] = 0 \<and>
   mounted_once (0::nat) (\<lparr>app_component = 0, app_mounted = True, app_container = Some 0\<rparr>,
      [\<lparr>el_id = ''app'', el_children = [Rendered 0]\<rparr>])"
proof -
  have r: "page_run (0::nat) [\<lparr>el_id = ''app'', el_children = [TextNode ''Loading'']\<rparr>]
     (\<lparr>app_component = 0, app_mounted = True, app_container = Some 0\<rparr>,
      [\<lparr>el_id = ''app'', el_children = [Rendered 0]\<rparr>])"
    by (rule page_run.start) (simp add: main_def create_app_def app_mount_def query_selector_def)
  have z: "root_count [\<lparr>el_id = ''app'', el_children = [TextNode ''Loading'' :: nat node]\<rparr>] = 0"
    by (simp add: root_count_def el_roots_def)
  show ?thesis using r z page_run_mounted_once [OF r z] by simp
qed

end
