(* ===== verification/Spec2Isabelle.thy ===== *)
theory Spec2Isabelle
  imports Theme Utilities Bootstrap
begin

text \<open>
  \<^bold>\<open>A verification development of the SIGNALAI dashboard's front-end configuration.\<close>

  \<^medskip>\<^bold>\<open>The program.\<close>  The repository's sources are two JavaScript files.
  \<open>src/dashboard/tailwind.config.js\<close> is the Tailwind CSS configuration: an exported
  object with the \<open>content\<close> globs, the token tables of \<open>theme.extend\<close> (colours
  with two eleven-shade palettes and three trading colours, fonts, sizes, spacing,
  animations and their keyframes, blur radii, gradients, shadows), and one plugin that
  synthesizes eight utility classes by \<open>@apply\<close>-composing existing utilities, three of
  them (the badge variants) composing a fourth (\<open>signal-badge\<close>).
  \<open>src/dashboard/src/main.js\<close> is the entry point: \<open>createApp(SimpleApp)\<close>, then
  \<open>app.mount('#app')\<close>.  The two never meet at run time; they are coupled only through
  the class names the build produces and the components render.

  \<^medskip>\<^bold>\<open>The theories.\<close>
  \<^item> \<open>Prelude\<close>: object literals as association lists in source order
    (\<open>'v js_object\<close>, \<open>obj_get\<close> with last-duplicate-wins reads), Tailwind's
    \<open>theme.extend\<close> merge \<open>merge_with\<close> (base keys keep their place, colliding keys
    take the extension's value, new keys are appended), string splitting and joining
    (\<open>split_by\<close>, \<open>join\<close>, \<open>words\<close>) with their round trips, and chains of a
    relation with the pigeonhole lemma \<open>chain_length_acyclic\<close> behind every fuel bound.
  \<^item> \<open>Theme\<close> (config lines 3--117): one definition per token table
    (\<open>colors\<close>, \<open>signal_palette\<close>, \<open>purple_palette\<close>, \<open>fontFamily\<close>,
    \<open>fontSize\<close>, \<open>spacing\<close>, \<open>animation\<close>, \<open>fadeIn\<close>, \<open>slideUp\<close>, \<open>glow\<close>,
    \<open>keyframes\<close>, \<open>backdropBlur\<close>, \<open>backgroundImage\<close>, \<open>boxShadow\<close>, \<open>content\<close>),
    transcribed entry by entry, and the record \<open>theme_extension\<close> / \<open>theme_extend\<close>.
    Beside them: well-formedness \<open>theme_wf\<close> (unique keys, hex colours, the 50--950
    scale, keyframes from \<open>0%\<close> to \<open>100%\<close>), Tailwind's colour flattening
    \<open>flatten_colors\<close> (\<open>purple\<close> shade \<open>700\<close> becomes \<open>purple-700\<close>), the merge
    of the colour extension into a base theme \<open>extend_colors\<close>, palette by palette,
    and the lookup \<open>shade\<close> of one shade of a palette in a merged theme.
  \<^item> \<open>Utilities\<close> (config lines 119--148): the eight rules (\<open>signal_card\<close> \<dots>
    \<open>market_bg\<close>), \<open>newUtilities\<close>, and the plugin \<open>signal_plugin\<close>, written over
    any state \<open>'s\<close> its \<open>addUtilities\<close> callback acts on (the interface between
    the configuration and the build tool).  Tailwind's side, modelled from the spec:
    the registry and \<open>add_utilities\<close>; the \<open>@apply\<close> parameter split
    \<open>rule_candidates\<close>; the class candidate parser \<open>parse_candidate\<close>
    (\<open>variants:utility/modifier\<close>) and printer; and \<open>expand\<close>, which resolves a
    candidate list against the declared rules, replacing a reference by the referenced
    rule's expansion with its variants carried over, accepting other candidates only if
    the core recognizer \<open>core\<close> (a parameter: Tailwind's own catalogue is not part
    of the repository) knows them, and failing with \<open>UnknownUtility\<close> or
    \<open>CircularApply\<close>, the two configuration errors of spec section 7.
  \<^item> \<open>Bootstrap\<close> (\<open>main.js\<close>): the document as a list of elements with ids and
    children, the application record, \<open>query_selector\<close> for \<open>#id\<close>,
    \<open>create_app\<close>, \<open>app_mount\<close> (the spec's mount contract: mount once, fail with
    \<open>MountTargetNotFound\<close> and no change when the target is missing, otherwise replace
    the target's content by the rendered root), \<open>main\<close>, and the page's lifetime as
    the inductive relation \<open>page_run\<close> (the state \<open>main\<close> leaves, then any later
    successful \<open>mount\<close>).  The root component \<open>SimpleApp\<close> is a type variable.
  \<^item> \<open>Spec2Isabelle\<close> (this theory): the exported object \<open>config\<close> as the record
    \<open>tailwind_config\<close>, the build step \<open>run_plugins\<close> / \<open>build_registry\<close> that
    runs each plugin once with the registration callback, and the property that spans
    the theme and the plugin.

  \<^medskip>\<^bold>\<open>What is proved.\<close>  Claims C1--C11, each right after a text naming it.
  Theme: every table of \<open>theme.extend\<close> is well formed (C1); whatever base theme
  Tailwind starts from, the extended theme maps each shade of \<open>signal\<close> and
  \<open>purple\<close> and each trading colour to this configuration's hex value (C9, from the
  general shade-by-shade merge lemmas \<open>shade_extend_colors\<close> and
  \<open>extend_colors_color\<close>); the animations name the keyframes \<open>pulse\<close>,
  \<open>bounce\<close>, \<open>fadeIn\<close>, \<open>slideUp\<close>, \<open>glow\<close>, of which the configuration
  defines the last three (C11).
  Plugin: its composition graph is acyclic (C2), so expansion over its rules never reports
  a cycle, for any core and any input (C3, from the general theorem
  \<open>expand_enough_fuel\<close>: an acyclic table of \<open>n\<close> rules needs fuel \<open>n\<close>, proved by
  following the chain of \<open>n + 1\<close> references that running out of fuel implies and the
  pigeonhole lemma); the badge variants expand to the base badge's candidates followed by
  their own (C4); the plugin registers its eight classes in one call of
  \<open>addUtilities\<close> (C10).  The general round trips of the candidate and \<open>@apply\<close>
  parsers (\<open>print_parse_candidate\<close>, \<open>parse_print_candidate\<close>,
  \<open>apply_directive_roundtrip\<close>) and fuel monotonicity (\<open>expand_mono\<close>) are library
  lemmas of \<open>Utilities\<close>.
  Entry point: \<open>main\<close> mounts the root as the only child of the first \<open>#app\<close>
  element and changes nothing else (C5), and fails with a startup error and no new
  document when there is none (C8); every state of a page's run holds exactly one
  rendered root, in the mount element (C6, by rule induction over \<open>page_run\<close>).
  Across components: every colour the plugin takes from the theme's palettes is defined
  there as a hex colour (C7).

  \<^medskip>\<^bold>\<open>Fuel.\<close>  \<open>expand\<close> spends one unit of fuel per nested reference.  The fuel
  used for the plugin's rules is their number, eight; \<open>expand_enough_fuel\<close> shows
  that this is enough for any acyclic table, and \<open>expand_mono\<close> that more fuel never
  changes a successful result.  The plugin's deepest composition has depth two
  (a badge variant, then \<open>signal-badge\<close>).

  \<^medskip>\<^bold>\<open>Not modelled.\<close>  The stylesheet import of \<open>main.js\<close> (a bundler side
  effect), \<open>SimpleApp.vue\<close> and \<open>index.html\<close> (not among the sources), Tailwind's
  content scanning, CSS generation and core utility catalogue (the catalogue is the
  parameter \<open>core\<close>), and Vue's rendering (the rendered root is an opaque node).
  Selectors other than \<open>#id\<close> are not needed by the source and not modelled.
\<close>

section \<open>The exported configuration and the build\<close>

text \<open>The object \<open>export default { content, theme: { extend }, plugins }\<close> of
  \<open>tailwind.config.js\<close>, over the state \<open>'s\<close> its plugins act on.\<close>

record 's tailwind_config =
  cfg_content :: "string list"
  cfg_extend :: theme_extension
  cfg_plugins :: "'s plugin list"

definition config :: "'s tailwind_config" where
  "config = \<lparr>cfg_content = content, cfg_extend = theme_extend, cfg_plugins = [signal_plugin]\<rparr>"

text \<open>The build tool invokes every plugin once, in order, with its registration
  callback.\<close>

definition run_plugins :: "'s plugin list \<Rightarrow> 's add_utilities_fn \<Rightarrow> 's \<Rightarrow> 's" where
  "run_plugins ps addUtilities s = fold (\<lambda>p. p addUtilities) ps s"

definition build_registry :: "registry tailwind_config \<Rightarrow> registry" where
  "build_registry cfg = run_plugins (cfg_plugins cfg) add_utilities empty_registry"

text \<open>The colour a colour utility names: what follows one of the colour prefixes
  \<open>bg-\<close>, \<open>text-\<close>, \<open>border-\<close>, \<open>from-\<close>, \<open>via-\<close>, \<open>to-\<close>.\<close>

definition color_prefixes :: "string list" where
  "color_prefixes = [''bg-'', ''text-'', ''border-'', ''from-'', ''via-'', ''to-'']"

definition color_part :: "string \<Rightarrow> string option" where
  "color_part u =
     (case filter (\<lambda>p. take (length p) u = p) color_prefixes of
        [] \<Rightarrow> None
      | p # _ \<Rightarrow> Some (drop (length p) u))"

text \<open>The colours the plugin's candidates take from a palette of the theme: those whose
  colour part starts with the name of a palette of \<open>colors\<close> and a dash.\<close>

definition palette_names :: "color_value js_object \<Rightarrow> string list" where
  "palette_names cs = map fst (filter (\<lambda>(_, v). case v of Palette _ \<Rightarrow> True | Color _ \<Rightarrow> False) cs)"

definition palette_refs :: "(string \<times> string list) list \<Rightarrow> string list" where
  "palette_refs ut =
     filter (\<lambda>c. list_ex (\<lambda>p. take (Suc (length p)) c = p @ ''-'') (palette_names colors))
       (List.map_filter (\<lambda>t. color_part (cand_utility (parse_candidate t))) (concat (map snd ut)))"

section \<open>Properties spanning the components\<close>

text \<open>C7: every colour the plugin's utilities take from one of the theme's palettes
  (\<open>purple-500\<close>, \<open>purple-400\<close>, \<open>purple-600\<close>, \<open>purple-700\<close>,
  \<open>purple-900\<close>) is defined by the theme and resolves to a hex colour; the other
  colours the plugin uses (\<open>black\<close>, \<open>pink-*\<close>, \<open>green-400\<close>, \<dots>) come from
  Tailwind's default palette, not from this configuration.\<close>

theorem plugin_palette_colors_resolve:
  "palette_refs (utility_table newUtilities) =
     [''purple-500'', ''purple-400'', ''purple-600'', ''purple-700'', ''purple-400'', ''purple-900''] \<and>
   list_all (\<lambda>c. case map_of (flatten_colors colors) c of None \<Rightarrow> False | Some v \<Rightarrow> is_hex_color v)
     (palette_refs (utility_table newUtilities))"
  by (simp add: palette_refs_def utility_table_newUtilities palette_names_def color_part_def
      color_prefixes_def parse_candidate_def List.map_filter_def theme_eval_defs)

end
